theory Spec2Isabelle
  imports Main
begin

section \<open>Python values, errors and strings\<close>

text \<open>
  The application is a Python script (\<^verbatim>\<open>src/app.py\<close>). Values that cross an untyped
  boundary (a decoded JSON body, the content of a chat message) are modelled by one
  datatype of Python values. Numbers are carried as integers: the code only ever tests
  them for truthiness or passes them on.
\<close>

datatype pyval =
    PNone
  | PBool bool
  | PInt int
  | PStr string
  | PList "pyval list"
  | PDict "(string \<times> pyval) list"

text \<open>Exceptions that the script does not catch are results of the model.\<close>

datatype py_error = KeyError | IndexError | AttributeError | TypeError

definition and_then :: "py_error + 'a \<Rightarrow> ('a \<Rightarrow> py_error + 'b) \<Rightarrow> py_error + 'b" where
  "and_then r f = (case r of Inl e \<Rightarrow> Inl e | Inr v \<Rightarrow> f v)"

text \<open>Python's truth value of an object, as \<^verbatim>\<open>if x\<close> and \<^verbatim>\<open>x and y\<close> use it.\<close>

fun truthy :: "pyval \<Rightarrow> bool" where
  "truthy PNone = False"
| "truthy (PBool b) = b"
| "truthy (PInt n) = (n \<noteq> 0)"
| "truthy (PStr s) = (s \<noteq> [])"
| "truthy (PList xs) = (xs \<noteq> [])"
| "truthy (PDict kvs) = (kvs \<noteq> [])"

text \<open>
  A decoded JSON object keeps the last value of a repeated key, so the association list
  is searched from its end.
\<close>

definition dict_lookup :: "(string \<times> pyval) list \<Rightarrow> string \<Rightarrow> pyval option" where
  "dict_lookup kvs k = map_of (rev kvs) k"

text \<open>\<^verbatim>\<open>x.get(k)\<close>: only a dict has the method.\<close>

fun py_get :: "pyval \<Rightarrow> string \<Rightarrow> py_error + pyval" where
  "py_get (PDict kvs) k = Inr (case dict_lookup kvs k of None \<Rightarrow> PNone | Some v \<Rightarrow> v)"
| "py_get _ k = Inl AttributeError"

text \<open>\<^verbatim>\<open>x["k"]\<close> with a string key.\<close>

fun py_item :: "pyval \<Rightarrow> string \<Rightarrow> py_error + pyval" where
  "py_item (PDict kvs) k = (case dict_lookup kvs k of None \<Rightarrow> Inl KeyError | Some v \<Rightarrow> Inr v)"
| "py_item _ k = Inl TypeError"

text \<open>
  A Python string is held as the bytes of its UTF-8 encoding, which agrees with Python on
  equality, emptiness and concatenation. Where Python counts characters it counts code
  points: a code point is a byte that is not a continuation byte (\<^verbatim>\<open>10xxxxxx\<close>)
  together with the continuation bytes that follow it. \<^verbatim>\<open>s[:n]\<close> is the first
  \<open>n\<close> code points.
\<close>

definition is_continuation :: "char \<Rightarrow> bool" where
  "is_continuation c = (128 \<le> (of_char c :: nat) \<and> (of_char c :: nat) < 192)"

fun take_code_points :: "nat \<Rightarrow> string \<Rightarrow> string" where
  "take_code_points n [] = []"
| "take_code_points n (c # cs) =
     (if is_continuation c then c # take_code_points n cs
      else (case n of 0 \<Rightarrow> [] | Suc m \<Rightarrow> c # take_code_points m cs))"

text \<open>\<^verbatim>\<open>x[0]\<close>: a dict decoded from JSON has string keys only, so the key 0 is missing.\<close>

fun py_index0 :: "pyval \<Rightarrow> py_error + pyval" where
  "py_index0 (PList xs) = (case xs of [] \<Rightarrow> Inl IndexError | x # _ \<Rightarrow> Inr x)"
| "py_index0 (PStr s) =
     (case s of [] \<Rightarrow> Inl IndexError | _ # _ \<Rightarrow> Inr (PStr (take_code_points 1 s)))"
| "py_index0 (PDict kvs) = Inl KeyError"
| "py_index0 _ = Inl TypeError"

text \<open>\<^verbatim>\<open>str(n)\<close> of a non-negative integer.\<close>

fun str_nat :: "nat \<Rightarrow> string" where
  "str_nat n = (if n < 10 then [char_of (48 + n)]
                else str_nat (n div 10) @ [char_of (48 + n mod 10)])"

declare str_nat.simps [simp del]

text \<open>\<^verbatim>\<open>str(i)\<close> of an integer.\<close>

definition str_int :: "int \<Rightarrow> string" where
  "str_int i = (if i < 0 then CHR ''-'' # str_nat (nat (- i)) else str_nat (nat i))"

text \<open>
  The text of a value in a replacement field of an f-string. The text of a list or a
  dict quotes the strings in it by rules that consult Python's Unicode tables; it is a
  parameter.
\<close>

definition py_format :: "(pyval \<Rightarrow> string) \<Rightarrow> pyval \<Rightarrow> string" where
  "py_format container_repr v =
     (case v of
        PNone \<Rightarrow> ''None''
      | PBool b \<Rightarrow> (if b then ''True'' else ''False'')
      | PInt i \<Rightarrow> str_int i
      | PStr s \<Rightarrow> s
      | PList xs \<Rightarrow> container_repr v
      | PDict kvs \<Rightarrow> container_repr v)"

text \<open>
  The warning sign that starts every error string (U+26A0 U+FE0F), held as its UTF-8
  bytes.
\<close>

definition warning_sign :: string where
  "warning_sign = [CHR 0xE2, CHR 0x9A, CHR 0xA0, CHR 0xEF, CHR 0xB8, CHR 0x8F]"

section \<open>Messages and the request payload\<close>

record message =
  role :: string
  content :: pyval

record payload =
  contents :: "(string \<times> pyval) list"
  systemInstruction :: "pyval option"
  tools :: "string list"

text \<open>
  The loop of \<^verbatim>\<open>get_gemini_response\<close> over \<^verbatim>\<open>api_messages\<close>: a system message sets the
  instruction and is skipped, every other message is appended with role user or model.
\<close>

fun convert_messages ::
  "message list \<Rightarrow> (string \<times> pyval) list \<Rightarrow> pyval option
     \<Rightarrow> (string \<times> pyval) list \<times> pyval option" where
  "convert_messages [] gemini_contents system_instruction_part =
     (gemini_contents, system_instruction_part)"
| "convert_messages (msg # rest) gemini_contents system_instruction_part =
     (let r = (if role msg = ''user'' then ''user'' else ''model'') in
      if role msg = ''system''
      then convert_messages rest gemini_contents (Some (content msg))
      else convert_messages rest (gemini_contents @ [(r, content msg)]) system_instruction_part)"

definition build_payload :: "message list \<Rightarrow> payload" where
  "build_payload api_messages =
     (case convert_messages api_messages [] None of
        (gemini_contents, system_instruction_part) \<Rightarrow>
          \<lparr>contents = gemini_contents,
           systemInstruction = system_instruction_part,
           tools = [''google_search'']\<rparr>)"

section \<open>The generation client\<close>

text \<open>
  What \<^verbatim>\<open>requests.post\<close> gives back: a transport failure (a \<^verbatim>\<open>RequestException\<close>, with
  its message), or a response with a status code, a body text and the outcome of
  \<^verbatim>\<open>response.json()\<close>, which raises a \<^verbatim>\<open>RequestException\<close> of its own (with its message)
  when the body is not JSON.
\<close>

datatype response =
  Response (status_code: nat) (response_text: string) (response_json: "string + pyval")

datatype post_outcome = RequestFailed string | Responded response

text \<open>\<^verbatim>\<open>raise_for_status\<close> raises \<^verbatim>\<open>HTTPError\<close> for the 4xx and 5xx codes.\<close>

definition raises_for_status :: "response \<Rightarrow> bool" where
  "raises_for_status r = (400 \<le> status_code r \<and> status_code r < 600)"

definition config_error :: string where
  "config_error = warning_sign @
     '' **Configuration Error:** The `GEMINI_API_KEY` is not set in your `.env` file.''"

definition empty_response_error :: string where
  "empty_response_error = warning_sign @
     '' **API Response Error:** The Gemini API returned an empty or unexpected response structure.''"

definition http_error :: "nat \<Rightarrow> string \<Rightarrow> string" where
  "http_error code body = warning_sign @
     '' **HTTP Error (Gemini):** Status '' @ str_nat code @ ''. Error: '' @ body"

definition connection_error :: "string \<Rightarrow> string" where
  "connection_error err = warning_sign @ '' **Connection Error (Gemini):** '' @ err"

definition retries_error :: string where
  "retries_error = warning_sign @
     '' **Error:** Failed to get a response after multiple retries due to rate limiting.''"

text \<open>The subexpressions of the extraction, each evaluated as Python does.\<close>

definition first_candidate :: "pyval \<Rightarrow> py_error + pyval" where
  "first_candidate result = and_then (py_item result ''candidates'') py_index0"

definition first_content :: "pyval \<Rightarrow> py_error + pyval" where
  "first_content result = and_then (first_candidate result) (\<lambda>c. py_item c ''content'')"

text \<open>
  The extraction of the reply (the \<^verbatim>\<open>if\<close> after \<^verbatim>\<open>response.json()\<close>). The chain of
  \<^verbatim>\<open>and\<close> stops at the first falsy operand; an operand that raises ends the call.
\<close>

definition extract_text :: "pyval \<Rightarrow> py_error + pyval" where
  "extract_text result =
     (if \<not> truthy result then Inr (PStr empty_response_error)
      else and_then (py_get result ''candidates'') (\<lambda>c1.
        if \<not> truthy c1 then Inr (PStr empty_response_error)
        else and_then (and_then (first_candidate result) (\<lambda>c. py_get c ''content'')) (\<lambda>c2.
          if \<not> truthy c2 then Inr (PStr empty_response_error)
          else and_then (and_then (first_content result) (\<lambda>c. py_get c ''parts'')) (\<lambda>c3.
            if \<not> truthy c3 then Inr (PStr empty_response_error)
            else and_then (first_content result) (\<lambda>c.
                   and_then (py_item c ''parts'') (\<lambda>ps.
                   and_then (py_index0 ps) (\<lambda>p. py_item p ''text'')))))))"

text \<open>
  What a script run does to the world, in order: a POST to the endpoint, a sleep of so
  many seconds, a successful write of the history document, or the warning shown when
  that write raised.
\<close>

datatype effect = Post | Sleep nat | Save "message list" | SaveWarning

text \<open>
  The retry loop, \<^verbatim>\<open>for attempt in range(max_retries)\<close>, over the list of attempt
  numbers still to run. \<open>post\<close> is the endpoint: what the call numbered \<open>attempt\<close>
  gives back. The result is the returned value (or the exception that escaped) and the
  effects so far.
\<close>

fun retry_loop ::
  "(nat \<Rightarrow> post_outcome) \<Rightarrow> nat \<Rightarrow> nat list \<Rightarrow> effect list
     \<Rightarrow> (py_error + pyval) \<times> effect list" where
  "retry_loop post max_retries [] log =
     (Inr (PStr retries_error), log)"
| "retry_loop post max_retries (attempt # rest) log =
     (case post attempt of
        RequestFailed err \<Rightarrow> (Inr (PStr (connection_error err)), log @ [Post])
      | Responded r \<Rightarrow>
          if raises_for_status r
          then (if status_code r = 429 \<and> attempt < max_retries - 1
                then retry_loop post max_retries rest (log @ [Post, Sleep (2 ^ attempt)])
                else (Inr (PStr (http_error (status_code r) (response_text r))),
                      log @ [Post]))
          else (case response_json r of
                  Inl err \<Rightarrow> (Inr (PStr (connection_error err)), log @ [Post])
                | Inr result \<Rightarrow> (extract_text result, log @ [Post])))"

text \<open>
  \<^verbatim>\<open>get_gemini_response\<close>. The key is the environment variable: unset (\<open>None\<close>) or a
  string. The endpoint sees the payload.
\<close>

definition get_gemini_response ::
  "string option \<Rightarrow> (payload \<Rightarrow> nat \<Rightarrow> post_outcome) \<Rightarrow> message list
     \<Rightarrow> (py_error + pyval) \<times> effect list" where
  "get_gemini_response GEMINI_API_KEY post api_messages =
     (if GEMINI_API_KEY = None \<or> GEMINI_API_KEY = Some []
      then (Inr (PStr config_error), [])
      else (let max_retries = 3 in
            retry_loop (post (build_payload api_messages)) max_retries [0..<max_retries] []))"

section \<open>Session state\<close>

text \<open>
  Python lists are objects: \<^verbatim>\<open>st.session_state["messages"]\<close> holds a reference, and
  \<^verbatim>\<open>append\<close> and \<^verbatim>\<open>insert\<close> change the object in place. The state therefore has a
  store of list objects and the session keys hold addresses into it.
\<close>

type_synonym addr = nat

text \<open>
  The dict that \<^verbatim>\<open>fetch_stock_data\<close> returns. The symbol is text, the result of
  \<^verbatim>\<open>symbol.upper()\<close>; every other value is what the market-data library reported
  under that key (text, a number, null, or anything else) or the default text.
\<close>

record snapshot =
  symbol :: string
  shortName :: pyval
  sector :: pyval
  currentPrice :: pyval
  fiftyTwoWeekHigh :: pyval
  fiftyTwoWeekLow :: pyval
  longBusinessSummary :: pyval
  marketCap :: pyval

record session_state =
  heap :: "addr \<Rightarrow> message list"
  next_addr :: addr
  messages :: "addr option"
  stock_data :: "snapshot option"
  chat_input_text :: "string option"
  is_auth_ready :: bool
  history_loaded :: bool
  history_doc_ref :: bool

text \<open>A new list object, \<^verbatim>\<open>[...]\<close> or \<^verbatim>\<open>list(xs)\<close>.\<close>

definition new_list :: "message list \<Rightarrow> session_state \<Rightarrow> addr \<times> session_state" where
  "new_list xs s =
     (next_addr s, s\<lparr>heap := (heap s)(next_addr s := xs), next_addr := Suc (next_addr s)\<rparr>)"

definition list_append :: "addr \<Rightarrow> message \<Rightarrow> session_state \<Rightarrow> session_state" where
  "list_append a m s = s\<lparr>heap := (heap s)(a := heap s a @ [m])\<rparr>"

text \<open>
  \<^verbatim>\<open>xs.insert(i, x)\<close>: a negative index counts from the end, and an index beyond either
  end is clipped.
\<close>

definition py_insert :: "'a list \<Rightarrow> int \<Rightarrow> 'a \<Rightarrow> 'a list" where
  "py_insert xs i x =
     (let n = int (length xs);
          j = (if i < 0 then max 0 (i + n) else min i n)
      in take (nat j) xs @ x # drop (nat j) xs)"

definition list_insert :: "addr \<Rightarrow> int \<Rightarrow> message \<Rightarrow> session_state \<Rightarrow> session_state" where
  "list_insert a i m s = s\<lparr>heap := (heap s)(a := py_insert (heap s a) i m)\<rparr>"

definition nl :: string where
  "nl = [CHR 0x0A]"

definition SYSTEM_PROMPT :: string where
  "SYSTEM_PROMPT = nl @
     ''You are StockBot AI, a helpful, concise, and expert financial assistant.'' @ nl @
     ''Your goal is to provide analysis and answer user questions about the stock market and specific companies.'' @ nl @
     ''You have access to a Google Search tool for current, real-time grounding. Use it for current price, news, and recent performance whenever needed.'' @ nl @
     ''If specific stock data is provided in the CONTEXT section of the user's prompt (from yfinance), you MUST also use that data for your analysis and comparisons.'' @ nl @
     ''Keep your answers professional, informative, and focused on the user's financial inquiry.'' @ nl"

definition system_message :: message where
  "system_message = \<lparr>role = ''system'', content = PStr SYSTEM_PROMPT\<rparr>"

section \<open>Loading the persisted history\<close>

text \<open>
  What \<^verbatim>\<open>doc_ref.get()\<close> gives: it raises, or the document does not exist, or it exists
  and has or lacks the field \<^verbatim>\<open>messages\<close>. Reading a field that the document lacks
  raises \<^verbatim>\<open>KeyError\<close>, which the handler of \<^verbatim>\<open>load_chat_history\<close> catches like any
  other exception. Each read of the field is a fresh copy.
\<close>

datatype firestore_get = GetRaises | NoDocument | Document "message list option"

definition load_chat_history :: "firestore_get \<Rightarrow> session_state \<Rightarrow> session_state" where
  "load_chat_history got s =
     (if is_auth_ready s \<and> \<not> history_loaded s then
        (case got of
           GetRaises \<Rightarrow>
             (case new_list [system_message] s of
                (a, s1) \<Rightarrow> s1\<lparr>messages := Some a, history_loaded := True\<rparr>)
         | Document None \<Rightarrow>
             (case new_list [system_message] s of
                (a, s1) \<Rightarrow> s1\<lparr>messages := Some a, history_loaded := True\<rparr>)
         | NoDocument \<Rightarrow>
             (case new_list [system_message] s of
                (a, s1) \<Rightarrow>
                  s1\<lparr>messages := Some a, history_loaded := True, history_doc_ref := True\<rparr>)
         | Document (Some msgs) \<Rightarrow>
             (if msgs \<noteq> [] then
                (case new_list msgs s of
                   (loaded_messages, s1) \<Rightarrow>
                     (let s2 = (if heap s1 loaded_messages = []
                                   \<or> role (hd (heap s1 loaded_messages)) \<noteq> ''system''
                                then list_insert loaded_messages 0 system_message s1
                                else s1)
                      in s2\<lparr>messages := Some loaded_messages, history_loaded := True,
                            history_doc_ref := True\<rparr>))
              else
                (case new_list [system_message] s of
                   (a, s1) \<Rightarrow>
                     s1\<lparr>messages := Some a, history_loaded := True,
                         history_doc_ref := True\<rparr>)))
      else s)"

text \<open>The initialisation of the keys that the rest of the script reads.\<close>

definition init_session :: "session_state \<Rightarrow> session_state" where
  "init_session s =
     (let s1 = (if messages s = None
                then (case new_list [system_message] s of
                        (a, s') \<Rightarrow> s'\<lparr>messages := Some a\<rparr>)
                else s);
          s2 = (if chat_input_text s1 = None then s1\<lparr>chat_input_text := Some []\<rparr> else s1)
      in s2)"

section \<open>The market lookup\<close>

text \<open>
  The dict \<^verbatim>\<open>stock.info\<close> that the market-data library reports: a key is missing
  (\<open>None\<close>) or present with a value, which may be null (\<open>Some PNone\<close>).
  \<^verbatim>\<open>info.get(k, d)\<close> gives the default for a missing key only.
\<close>

definition info_get :: "(string \<Rightarrow> pyval option) \<Rightarrow> string \<Rightarrow> pyval \<Rightarrow> pyval" where
  "info_get info k d = (case info k of None \<Rightarrow> d | Some v \<Rightarrow> v)"

text \<open>\<^verbatim>\<open>info.get(k) is None\<close>: the key is missing or its value is null.\<close>

definition is_None :: "pyval option \<Rightarrow> bool" where
  "is_None v = (v = None \<or> v = Some PNone)"

text \<open>
  \<^verbatim>\<open>fetch_stock_data\<close>. \<open>upper\<close> is Python's \<^verbatim>\<open>str.upper\<close>, which follows the Unicode
  case tables. \<open>yf\<close> is the library: for a symbol, the info dict, or \<open>None\<close> when
  reading it raises. Every exception, the \<^verbatim>\<open>ValueError\<close> of a symbol without a price
  included, ends in \<^verbatim>\<open>return None\<close>.
\<close>

definition fetch_stock_data ::
  "(string \<Rightarrow> string) \<Rightarrow> (string \<Rightarrow> (string \<Rightarrow> pyval option) option) \<Rightarrow> string
     \<Rightarrow> snapshot option" where
  "fetch_stock_data upper yf ticker =
     (case yf (upper ticker) of
        None \<Rightarrow> None
      | Some info \<Rightarrow>
          if is_None (info ''regularMarketPrice'') \<and> is_None (info ''currentPrice'') then None
          else Some
            \<lparr>symbol = upper ticker,
             shortName = info_get info ''shortName'' (PStr (upper ticker)),
             sector = info_get info ''sector'' (PStr ''N/A''),
             currentPrice =
               info_get info ''currentPrice''
                 (info_get info ''regularMarketPrice'' (PStr ''N/A'')),
             fiftyTwoWeekHigh = info_get info ''fiftyTwoWeekHigh'' (PStr ''N/A''),
             fiftyTwoWeekLow = info_get info ''fiftyTwoWeekLow'' (PStr ''N/A''),
             longBusinessSummary =
               info_get info ''longBusinessSummary'' (PStr ''No business summary available.''),
             marketCap = info_get info ''marketCap'' (PStr ''N/A'')\<rparr>)"

text \<open>
  The handler of the button "Fetch and Set Context", with the text of the symbol field.
  The result of the lookup is stored before it is tested.
\<close>

definition fetch_button ::
  "(string \<Rightarrow> string) \<Rightarrow> (string \<Rightarrow> (string \<Rightarrow> pyval option) option) \<Rightarrow> string
     \<Rightarrow> session_state \<Rightarrow> session_state" where
  "fetch_button upper yf symbol_input s =
     (if symbol_input \<noteq> [] then
        (let data = fetch_stock_data upper yf symbol_input;
             s1 = s\<lparr>stock_data := data\<rparr>
         in case data of
              None \<Rightarrow> s1
            | Some d \<Rightarrow>
                (case new_list [system_message] s1 of
                   (a, s2) \<Rightarrow> s2\<lparr>messages := Some a\<rparr>))
      else s)"

section \<open>The chat turn\<close>

text \<open>
  A script run ends with the session state it reached, the effects it had, and the
  exception that escaped it, if one did.
\<close>

type_synonym run_result = "session_state \<times> effect list \<times> py_error option"

text \<open>The callback of a "Previous Queries" button.\<close>

definition set_chat_input :: "string \<Rightarrow> session_state \<Rightarrow> session_state \<times> py_error option" where
  "set_chat_input query s =
     (let s1 = s\<lparr>chat_input_text := Some query\<rparr> in
      case messages s1 of
        None \<Rightarrow> (s1, Some KeyError)
      | Some a \<Rightarrow> (list_append a \<lparr>role = ''user'', content = PStr query\<rparr> s1, None))"

definition replace_newlines :: "string \<Rightarrow> string" where
  "replace_newlines s = map (\<lambda>c. if c = CHR 0x0A then CHR '' '' else c) s"

text \<open>
  \<^verbatim>\<open>data['longBusinessSummary'][:500].replace('\n', ' ')\<close>. Text is sliced by code
  points and its newlines replaced. A list can be sliced, but the slice has no
  \<^verbatim>\<open>replace\<close>; a dict has no key that is a slice; null, a truth value and a number
  cannot be subscripted.
\<close>

definition summary_text :: "pyval \<Rightarrow> py_error + string" where
  "summary_text v =
     (case v of
        PStr s \<Rightarrow> Inr (replace_newlines (take_code_points 500 s))
      | PList xs \<Rightarrow> Inl AttributeError
      | PDict kvs \<Rightarrow> Inl KeyError
      | _ \<Rightarrow> Inl TypeError)"

text \<open>
  The f-string \<^verbatim>\<open>context_message\<close>. Its fields are evaluated from left to right; the
  values before the summary are only formatted, which does not raise, so the summary
  decides whether the string is built. \<open>container_repr\<close> is Python's text for a list
  or a dict.
\<close>

definition context_message :: "(pyval \<Rightarrow> string) \<Rightarrow> snapshot \<Rightarrow> py_error + string" where
  "context_message container_repr data =
     and_then (summary_text (longBusinessSummary data)) (\<lambda>summary. Inr (nl @
       ''        CONTEXT: The user's query relates to the currently active stock: '' @
         symbol data @ '' ('' @ py_format container_repr (shortName data) @ '').'' @ nl @
       ''        Use the following real-time data for your analysis:'' @ nl @
       ''        - Current Price: $'' @ py_format container_repr (currentPrice data) @ nl @
       ''        - 52-Week Range: $'' @ py_format container_repr (fiftyTwoWeekLow data) @
         '' - $'' @ py_format container_repr (fiftyTwoWeekHigh data) @ nl @
       ''        - Sector: '' @ py_format container_repr (sector data) @ nl @
       ''        - Business Summary (Partial): '' @ summary @ ''...'' @ nl @
       ''        ''))"

text \<open>
  Step 2 of the submission handler: \<^verbatim>\<open>api_messages\<close> is a copy of the list at address
  \<open>a\<close>, and with an active snapshot the context message is built and inserted into
  the copy at \<^verbatim>\<open>len(api_messages) - 1\<close>. The result is the address of
  \<^verbatim>\<open>api_messages\<close>, or the exception that building the context message raised; the
  copy is then unreachable and the session is as it was.
\<close>

definition build_api_messages ::
  "(pyval \<Rightarrow> string) \<Rightarrow> addr \<Rightarrow> session_state \<Rightarrow> py_error + (addr \<times> session_state)" where
  "build_api_messages container_repr a s =
     (case new_list (heap s a) s of
        (api_messages, s1) \<Rightarrow>
          (case stock_data s1 of
             None \<Rightarrow> Inr (api_messages, s1)
           | Some data \<Rightarrow>
               and_then (context_message container_repr data) (\<lambda>context_message.
                 let last_user_index = int (length (heap s1 api_messages)) - 1 in
                 Inr (api_messages,
                      list_insert api_messages last_user_index
                        \<lparr>role = ''user'', content = PStr context_message\<rparr> s1))))"

text \<open>
  The world outside the script: the API key of the environment, the generation
  endpoint, the history document's \<^verbatim>\<open>set\<close> (true when the write of that list
  raises), the market-data library, and the two built-ins of Python that consult its
  Unicode tables, \<^verbatim>\<open>str.upper\<close> and the text of a list or dict.
\<close>

record world =
  env_api_key :: "string option"
  requests_post :: "payload \<Rightarrow> nat \<Rightarrow> post_outcome"
  doc_set_raises :: "message list \<Rightarrow> bool"
  yf_info :: "string \<Rightarrow> (string \<Rightarrow> pyval option) option"
  str_upper :: "string \<Rightarrow> string"
  repr_of :: "pyval \<Rightarrow> string"

text \<open>
  Step 1 of the submission handler: the input is appended as a user message unless the
  content of the last stored message equals it.
\<close>

definition append_user_input :: "string \<Rightarrow> addr \<Rightarrow> session_state \<Rightarrow> session_state" where
  "append_user_input user_input a s =
     (if \<not> content (last (heap s a)) = PStr user_input
      then list_append a \<lparr>role = ''user'', content = PStr user_input\<rparr> s
      else s)"

text \<open>
  Step 4: the write of the history document, inside \<^verbatim>\<open>try\<close>; an exception of the
  write becomes a warning on the page.
\<close>

definition save_history :: "world \<Rightarrow> addr \<Rightarrow> session_state \<Rightarrow> effect list" where
  "save_history w a s =
     (if history_doc_ref s
      then (if doc_set_raises w (heap s a) then [SaveWarning] else [Save (heap s a)])
      else [])"

text \<open>
  The submission handler, from \<^verbatim>\<open>if user_input:\<close> to the final \<^verbatim>\<open>st.rerun()\<close>.
  \<open>user_input\<close> is what \<^verbatim>\<open>st.chat_input\<close> returned: \<open>None\<close> unless text was
  submitted in the chat box for this run. An exception of step 2 or of the generation
  client ends the run after the user message has been appended.
\<close>

definition chat_submission :: "world \<Rightarrow> string option \<Rightarrow> session_state \<Rightarrow> run_result" where
  "chat_submission w user_input s =
     (case user_input of
        None \<Rightarrow> (s, [], None)
      | Some u \<Rightarrow>
          if u = [] then (s, [], None)
          else
            (case messages s of
               None \<Rightarrow> (s, [], Some KeyError)
             | Some a \<Rightarrow>
                 if heap s a = [] then (s, [], Some IndexError)
                 else
                   (let s1 = append_user_input u a s in
                    case build_api_messages (repr_of w) a s1 of
                      Inl e \<Rightarrow> (s1, [], Some e)
                    | Inr (api_messages, s2) \<Rightarrow>
                        (let (bot_reply, effs) =
                               get_gemini_response (env_api_key w) (requests_post w)
                                 (heap s2 api_messages)
                         in case bot_reply of
                              Inl e \<Rightarrow> (s2, effs, Some e)
                            | Inr reply \<Rightarrow>
                                (let s3 = list_append a
                                            \<lparr>role = ''assistant'', content = reply\<rparr> s2
                                 in (s3, effs @ save_history w a s3, None))))))"

text \<open>
  One script run per user action, from the initialisation of the session keys on (the
  history is loaded by \<open>load_chat_history\<close> in the very first run, before any widget
  exists). A click on a previous query runs the callback \<^verbatim>\<open>set_chat_input\<close> and then
  the script, in which the chat box has submitted nothing. A successful lookup ends its
  run with \<^verbatim>\<open>st.rerun()\<close>; the run that follows has no event.
\<close>

datatype event =
    NoEvent
  | PreviousQuery string
  | FetchClicked string
  | ChatSubmitted string

fun run :: "world \<Rightarrow> event \<Rightarrow> session_state \<Rightarrow> run_result" where
  "run w NoEvent s = chat_submission w None (init_session s)"
| "run w (PreviousQuery query) s =
     (case set_chat_input query s of
        (s1, Some e) \<Rightarrow> (s1, [], Some e)
      | (s1, None) \<Rightarrow> chat_submission w None (init_session s1))"
| "run w (FetchClicked symbol_input) s =
     (fetch_button (str_upper w) (yf_info w) symbol_input (init_session s), [], None)"
| "run w (ChatSubmitted user_input) s = chat_submission w (Some user_input) (init_session s)"

section \<open>Notions of the specification\<close>

text \<open>
  The stored Conversation: the list that the key \<^verbatim>\<open>messages\<close> refers to, when the key is
  set and refers to an allocated list.
\<close>

definition stored :: "session_state \<Rightarrow> message list option" where
  "stored s =
     (case messages s of
        None \<Rightarrow> None
      | Some a \<Rightarrow> if a < next_addr s then Some (heap s a) else None)"

text \<open>The invariant of the data model: the Conversation starts with a system message.\<close>

definition system_first :: "session_state \<Rightarrow> bool" where
  "system_first s =
     (case stored s of
        None \<Rightarrow> False
      | Some msgs \<Rightarrow> (case msgs of [] \<Rightarrow> False | m # _ \<Rightarrow> role m = ''system''))"

text \<open>
  The Context Injector as the specification words it: the Conversation verbatim without
  a Snapshot, and with one the synthetic message placed immediately before the last
  message. It has a result when the synthetic message can be built.
\<close>

definition inject ::
  "(pyval \<Rightarrow> string) \<Rightarrow> message list \<Rightarrow> snapshot option \<Rightarrow> py_error + message list" where
  "inject container_repr conversation activeSnapshot =
     (case activeSnapshot of
        None \<Rightarrow> Inr conversation
      | Some data \<Rightarrow>
          and_then (context_message container_repr data) (\<lambda>synthetic.
            Inr (butlast conversation @
                 [\<lparr>role = ''user'', content = PStr synthetic\<rparr>, last conversation])))"

text \<open>
  The Pending step of the specification: the user message is appended unless its text is
  the content of the immediately preceding stored message.
\<close>

definition append_user :: "string \<Rightarrow> message list \<Rightarrow> message list" where
  "append_user u conversation =
     (if content (last conversation) = PStr u then conversation
      else conversation @ [\<lparr>role = ''user'', content = PStr u\<rparr>])"

text \<open>A lookup: a click on "Fetch and Set Context" with a symbol in the field.\<close>

fun is_lookup :: "event \<Rightarrow> bool" where
  "is_lookup (FetchClicked symbol_input) = (symbol_input \<noteq> [])"
| "is_lookup _ = False"

text \<open>A rate-limit signal: a response with status 429.\<close>

definition rate_limited :: "post_outcome \<Rightarrow> bool" where
  "rate_limited out =
     (case out of RequestFailed err \<Rightarrow> False | Responded r \<Rightarrow> status_code r = 429)"

text \<open>What \<open>k\<close> rate-limited attempts leave behind: each a POST and a sleep of \<open>2 ^ attempt\<close>.\<close>

definition backoff :: "nat \<Rightarrow> effect list" where
  "backoff k = concat (map (\<lambda>i. [Post, Sleep (2 ^ i)]) [0..<k])"

text \<open>
  The three ways in which a body lacks the expected shape
  \<^verbatim>\<open>{candidates: [{content: {parts: [{text}]}}]}\<close>. A key counts as absent when it is
  missing or its value is empty (null, an empty list, an empty object).
\<close>

definition absent :: "pyval option \<Rightarrow> bool" where
  "absent v = (case v of None \<Rightarrow> True | Some x \<Rightarrow> \<not> truthy x)"

fun dict_of :: "pyval \<Rightarrow> (string \<times> pyval) list option" where
  "dict_of (PDict kvs) = Some kvs"
| "dict_of _ = None"

fun first_dict :: "pyval \<Rightarrow> (string \<times> pyval) list option" where
  "first_dict (PList (PDict kvs # _)) = Some kvs"
| "first_dict _ = None"

text \<open>The first candidate of a body, when the body is an object, its candidates are a
  list and the first of them is an object.\<close>

definition first_candidate_dict :: "pyval \<Rightarrow> (string \<times> pyval) list option" where
  "first_candidate_dict body =
     (case dict_of body of
        None \<Rightarrow> None
      | Some kvs \<Rightarrow>
          (case dict_lookup kvs ''candidates'' of
             None \<Rightarrow> None
           | Some cands \<Rightarrow> first_dict cands))"

text \<open>No candidates: an empty body, or an object without candidates.\<close>

definition no_candidates :: "pyval \<Rightarrow> bool" where
  "no_candidates body =
     (case dict_of body of
        None \<Rightarrow> \<not> truthy body
      | Some kvs \<Rightarrow> absent (dict_lookup kvs ''candidates''))"

text \<open>The first candidate is an object without content.\<close>

definition candidate_without_content :: "pyval \<Rightarrow> bool" where
  "candidate_without_content body =
     (case first_candidate_dict body of
        None \<Rightarrow> False
      | Some ckvs \<Rightarrow> absent (dict_lookup ckvs ''content''))"

text \<open>The content of the first candidate is an object without parts.\<close>

definition content_without_parts :: "pyval \<Rightarrow> bool" where
  "content_without_parts body =
     (case first_candidate_dict body of
        None \<Rightarrow> False
      | Some ckvs \<Rightarrow>
          (case dict_lookup ckvs ''content'' of
             None \<Rightarrow> False
           | Some c \<Rightarrow>
               (case dict_of c of
                  None \<Rightarrow> False
                | Some tkvs \<Rightarrow> absent (dict_lookup tkvs ''parts''))))"

section \<open>Example sessions and endpoints\<close>

definition example_body :: pyval where
  "example_body =
     PDict [(''candidates'',
             PList [PDict [(''content'',
                            PDict [(''parts'', PList [PDict [(''text'', PStr ''Fine.'')]])])]])]"

definition answering :: "payload \<Rightarrow> nat \<Rightarrow> post_outcome" where
  "answering p n = Responded (Response 200 ''ok'' (Inr example_body))"

definition always_429 :: "payload \<Rightarrow> nat \<Rightarrow> post_outcome" where
  "always_429 p n = Responded (Response 429 ''quota exceeded'' (Inl ''no JSON''))"

definition twice_429 :: "payload \<Rightarrow> nat \<Rightarrow> post_outcome" where
  "twice_429 p n = (if n < 2 then always_429 p n else answering p n)"

definition always_500 :: "payload \<Rightarrow> nat \<Rightarrow> post_outcome" where
  "always_500 p n = Responded (Response 500 ''boom'' (Inl ''no JSON''))"

definition null_candidate :: "payload \<Rightarrow> nat \<Rightarrow> post_outcome" where
  "null_candidate p n =
     Responded (Response 200 ''ok'' (Inr (PDict [(''candidates'', PList [PNone])])))"

definition empty_candidates :: "payload \<Rightarrow> nat \<Rightarrow> post_outcome" where
  "empty_candidates p n =
     (if n < 1 then always_429 p n
      else Responded (Response 200 ''ok'' (Inr (PDict [(''candidates'', PList [])]))))"

text \<open>A market that knows no symbol: its info dict is empty.\<close>

definition unknown_symbol :: "string \<Rightarrow> (string \<Rightarrow> pyval option) option" where
  "unknown_symbol ticker = Some (\<lambda>k. None)"

text \<open>A market that reports a price and a null business summary for every symbol.\<close>

definition null_summary :: "string \<Rightarrow> (string \<Rightarrow> pyval option) option" where
  "null_summary ticker =
     Some (\<lambda>k. if k = ''currentPrice'' then Some (PInt 190)
               else if k = ''longBusinessSummary'' then Some PNone
               else None)"

text \<open>\<^verbatim>\<open>str.upper\<close> on the ASCII letters, for symbols written in them.\<close>

definition upper_char :: "char \<Rightarrow> char" where
  "upper_char c =
     (let n = (of_char c :: nat) in if 97 \<le> n \<and> n \<le> 122 then char_of (n - 32) else c)"

definition ascii_upper :: "string \<Rightarrow> string" where
  "ascii_upper s = map upper_char s"

definition no_containers :: "pyval \<Rightarrow> string" where
  "no_containers v = []"

definition example_world :: world where
  "example_world =
     \<lparr>env_api_key = Some ''key'',
      requests_post = answering,
      doc_set_raises = (\<lambda>msgs. False),
      yf_info = unknown_symbol,
      str_upper = ascii_upper,
      repr_of = no_containers\<rparr>"

definition null_summary_world :: world where
  "null_summary_world = example_world\<lparr>yf_info := null_summary\<rparr>"

definition failing_store_world :: world where
  "failing_store_world = example_world\<lparr>doc_set_raises := (\<lambda>msgs. True)\<rparr>"

definition example_snapshot :: snapshot where
  "example_snapshot =
     \<lparr>symbol = ''AAPL'', shortName = PStr ''Apple Inc.'', sector = PStr ''Technology'',
      currentPrice = PInt 190, fiftyTwoWeekHigh = PInt 200, fiftyTwoWeekLow = PInt 120,
      longBusinessSummary = PStr ''Apple designs phones.'',
      marketCap = PInt 3000000000000\<rparr>"

definition user_says :: "string \<Rightarrow> message" where
  "user_says u = \<lparr>role = ''user'', content = PStr u\<rparr>"

definition assistant_says :: "string \<Rightarrow> message" where
  "assistant_says r = \<lparr>role = ''assistant'', content = PStr r\<rparr>"

text \<open>A session whose conversation is the list at address 0.\<close>

definition session_with :: "message list \<Rightarrow> snapshot option \<Rightarrow> session_state" where
  "session_with conversation active =
     \<lparr>heap = (\<lambda>a. [])(0 := conversation),
      next_addr = 1,
      messages = Some 0,
      stock_data = active,
      chat_input_text = Some [],
      is_auth_ready = True,
      history_loaded = True,
      history_doc_ref = True\<rparr>"

text \<open>A session before its first script run.\<close>

definition blank_session :: session_state where
  "blank_session =
     \<lparr>heap = (\<lambda>a. []),
      next_addr = 0,
      messages = None,
      stock_data = None,
      chat_input_text = None,
      is_auth_ready = True,
      history_loaded = False,
      history_doc_ref = False\<rparr>"



section \<open>Lemmas about the generation client\<close>

lemma dict_lookup_nonempty: "dict_lookup kvs k = Some v \<Longrightarrow> kvs \<noteq> []"
  by (auto simp: dict_lookup_def)

lemma rate_limited_step:
  "rate_limited (endpoint attempt) \<Longrightarrow> attempt < max_retries - 1 \<Longrightarrow>
   retry_loop endpoint max_retries (attempt # rest) log =
   retry_loop endpoint max_retries rest (log @ [Post, Sleep (2 ^ attempt)])"
  by (auto simp: rate_limited_def raises_for_status_def split: post_outcome.splits)

text \<open>
  While the attempts from \<open>a\<close> on are rate-limited and one more attempt remains, the
  loop only posts and sleeps.
\<close>

lemma retry_loop_prefix:
  "\<forall>i<k. rate_limited (endpoint (a + i)) \<Longrightarrow> a + k < max_retries \<Longrightarrow>
   retry_loop endpoint max_retries [a..<max_retries] log =
   retry_loop endpoint max_retries [a + k..<max_retries]
     (log @ concat (map (\<lambda>i. [Post, Sleep (2 ^ i)]) [a..<a + k]))"
proof (induction k arbitrary: a log)
  case 0
  then show ?case by simp
next
  case (Suc k)
  have first: "rate_limited (endpoint a)" using Suc.prems(1) by force
  have rest: "\<forall>i<k. rate_limited (endpoint (Suc a + i))" using Suc.prems(1) by force
  have lt: "a < max_retries - 1" "a < max_retries" "Suc a + k < max_retries"
    using Suc.prems(2) by simp_all
  have "retry_loop endpoint max_retries [a..<max_retries] log =
        retry_loop endpoint max_retries [Suc a..<max_retries] (log @ [Post, Sleep (2 ^ a)])"
    using rate_limited_step [of endpoint a max_retries, OF first lt(1)] lt(2)
    by (simp add: upt_conv_Cons)
  also have "\<dots> = retry_loop endpoint max_retries [Suc a + k..<max_retries]
      ((log @ [Post, Sleep (2 ^ a)]) @
       concat (map (\<lambda>i. [Post, Sleep (2 ^ i)]) [Suc a..<Suc a + k]))"
    by (rule Suc.IH [OF rest lt(3)])
  also have "\<dots> = retry_loop endpoint max_retries [a + Suc k..<max_retries]
      (log @ concat (map (\<lambda>i. [Post, Sleep (2 ^ i)]) [a..<a + Suc k]))"
    using upt_conv_Cons [of a "a + Suc k"] by simp
  finally show ?case .
qed

lemma retry_prefix:
  assumes "key \<noteq> []" "k < 3" "\<forall>i<k. rate_limited (endpoint (build_payload api_messages) i)"
  shows "get_gemini_response (Some key) endpoint api_messages =
         retry_loop (endpoint (build_payload api_messages)) 3 [k..<3] (backoff k)"
  using assms retry_loop_prefix [of k "endpoint (build_payload api_messages)" 0 3 "[]"]
  by (simp add: get_gemini_response_def backoff_def)

lemma retry_loop_next:
  "k < 3 \<Longrightarrow> retry_loop endpoint 3 [k..<3] log =
     retry_loop endpoint 3 (k # [Suc k..<3]) log"
  by (simp add: upt_conv_Cons)

lemma backoff_0: "backoff 0 = []"
  by (simp add: backoff_def)

lemma backoff_1: "backoff 1 = [Post, Sleep 1]"
  by (simp add: backoff_def)

lemma backoff_2: "backoff 2 = [Post, Sleep 1, Post, Sleep 2]"
  by (simp add: backoff_def upt_rec numeral_2_eq_2)

lemma str_nat_500: "str_nat 500 = ''500''"
  by code_simp

lemma http_error_not_retries_error: "http_error code body \<noteq> retries_error"
  by (simp add: http_error_def retries_error_def warning_sign_def)

text \<open>Three rate-limited attempts: the third one takes the branch of the other errors.\<close>

lemma rate_limited_thrice:
  assumes "key \<noteq> []"
    and "\<forall>i<3. rate_limited (endpoint (build_payload api_messages) i)"
    and "endpoint (build_payload api_messages) 2 = Responded r"
  shows "get_gemini_response (Some key) endpoint api_messages =
           (Inr (PStr (http_error 429 (response_text r))), [Post, Sleep 1, Post, Sleep 2, Post])"
proof -
  have pre: "\<forall>i<2. rate_limited (endpoint (build_payload api_messages) i)"
    using assms(2) by simp
  have "rate_limited (endpoint (build_payload api_messages) 2)"
    using assms(2) by simp
  then have last: "status_code r = 429" "raises_for_status r"
    using assms(3) by (simp_all add: rate_limited_def raises_for_status_def)
  have "get_gemini_response (Some key) endpoint api_messages =
        retry_loop (endpoint (build_payload api_messages)) 3 [2..<3] (backoff 2)"
    using assms(1) pre by (intro retry_prefix) simp_all
  also have "\<dots> = (Inr (PStr (http_error 429 (response_text r))), backoff 2 @ [Post])"
    using assms(3) last by (simp add: retry_loop_next)
  finally show ?thesis
    by (simp add: backoff_2)
qed

lemma extract_text_well_formed:
  assumes "dict_lookup kvs ''candidates'' = Some (PList (PDict ckvs # cs))"
    and "dict_lookup ckvs ''content'' = Some (PDict tkvs)"
    and "dict_lookup tkvs ''parts'' = Some (PList (PDict pkvs # ps))"
    and "dict_lookup pkvs ''text'' = Some t"
  shows "extract_text (PDict kvs) = Inr t"
  using assms dict_lookup_nonempty [OF assms(1)] dict_lookup_nonempty [OF assms(2)]
    dict_lookup_nonempty [OF assms(3)]
  by (simp add: extract_text_def and_then_def first_candidate_def first_content_def)

lemma dict_of_SomeD: "dict_of v = Some kvs \<Longrightarrow> v = PDict kvs"
  by (cases v) simp_all

lemma first_dict_SomeD: "first_dict v = Some kvs \<Longrightarrow> \<exists>cs. v = PList (PDict kvs # cs)"
  by (cases v rule: first_dict.cases) simp_all

lemma first_candidate_dictD:
  "first_candidate_dict body = Some ckvs \<Longrightarrow>
   \<exists>kvs cs. body = PDict kvs \<and> dict_lookup kvs ''candidates'' = Some (PList (PDict ckvs # cs))"
  by (auto simp: first_candidate_dict_def split: option.splits
      dest!: dict_of_SomeD first_dict_SomeD)

lemma extract_text_no_candidates:
  "no_candidates body \<Longrightarrow> extract_text body = Inr (PStr empty_response_error)"
  by (cases body)
     (auto simp: no_candidates_def extract_text_def and_then_def absent_def split: option.splits)

lemma extract_text_candidate_without_content:
  assumes "candidate_without_content body"
  shows "extract_text body = Inr (PStr empty_response_error)"
proof -
  from assms obtain ckvs where f: "first_candidate_dict body = Some ckvs"
    and t: "absent (dict_lookup ckvs ''content'')"
    by (auto simp: candidate_without_content_def split: option.splits)
  from f obtain kvs cs where b: "body = PDict kvs"
    and c: "dict_lookup kvs ''candidates'' = Some (PList (PDict ckvs # cs))"
    by (blast dest: first_candidate_dictD)
  from c have "kvs \<noteq> []" by (rule dict_lookup_nonempty)
  then show ?thesis using b c t
    by (auto simp: extract_text_def and_then_def first_candidate_def absent_def
        split: option.splits)
qed

lemma extract_text_content_without_parts:
  assumes "content_without_parts body"
  shows "extract_text body = Inr (PStr empty_response_error)"
proof -
  from assms obtain ckvs tkvs where f: "first_candidate_dict body = Some ckvs"
    and t: "dict_lookup ckvs ''content'' = Some (PDict tkvs)"
    and p: "absent (dict_lookup tkvs ''parts'')"
    by (auto simp: content_without_parts_def split: option.splits dest!: dict_of_SomeD)
  from f obtain kvs cs where b: "body = PDict kvs"
    and c: "dict_lookup kvs ''candidates'' = Some (PList (PDict ckvs # cs))"
    by (blast dest: first_candidate_dictD)
  from c have "kvs \<noteq> []" by (rule dict_lookup_nonempty)
  then show ?thesis using b c t p
    by (auto simp: extract_text_def and_then_def first_candidate_def first_content_def absent_def
        split: option.splits)
qed

section \<open>Lemmas about the session\<close>

lemma stored_updates [simp]:
  "stored (s\<lparr>chat_input_text := c\<rparr>) = stored s"
  "stored (s\<lparr>stock_data := d\<rparr>) = stored s"
  "stored (s\<lparr>history_loaded := h\<rparr>) = stored s"
  "stored (s\<lparr>history_doc_ref := r\<rparr>) = stored s"
  by (simp_all add: stored_def split: option.splits)

lemma system_first_updates [simp]:
  "system_first (s\<lparr>chat_input_text := c\<rparr>) = system_first s"
  "system_first (s\<lparr>stock_data := d\<rparr>) = system_first s"
  "system_first (s\<lparr>history_loaded := h\<rparr>) = system_first s"
  "system_first (s\<lparr>history_doc_ref := r\<rparr>) = system_first s"
  by (simp_all add: system_first_def)

lemma system_firstE:
  assumes "system_first s"
  obtains a m ms where "messages s = Some a" "a < next_addr s" "heap s a = m # ms"
    "role m = ''system''"
  using assms
  by (auto simp: system_first_def stored_def split: option.splits if_splits list.splits)

lemma py_insert_before_last:
  assumes "xs \<noteq> []"
  shows "py_insert xs (int (length xs) - 1) x = butlast xs @ [x, last xs]"
proof -
  have n: "nat (int (length xs) - 1) = length xs - 1" using assms by simp
  have "take (length xs - 1) xs = butlast xs" by (simp add: butlast_conv_take)
  moreover have "drop (length xs - 1) xs = [last xs]"
    using assms by (metis append_butlast_last_id append_eq_conv_conj length_butlast)
  ultimately show ?thesis using assms
    by (simp add: py_insert_def Let_def n min_def)
qed

text \<open>
  The code's step 2 computes the Context Injector of the specification, on a copy: it
  raises exactly when the injector has no result, and otherwise the copy holds the
  injector's result.
\<close>

lemma build_api_messages_raises:
  "build_api_messages r a s = Inl e \<longleftrightarrow> inject r (heap s a) (stock_data s) = Inl e"
  by (auto simp: build_api_messages_def new_list_def inject_def and_then_def Let_def
      split: option.splits sum.splits)

lemma build_api_messages_inject:
  assumes "a < next_addr s" "heap s a \<noteq> []"
    and "build_api_messages r a s = Inr (api_messages, s')"
  shows "inject r (heap s a) (stock_data s) = Inr (heap s' api_messages)"
    and "heap s' a = heap s a"
    and "api_messages = next_addr s"
    and "messages s' = messages s"
    and "stock_data s' = stock_data s"
    and "next_addr s' = Suc (next_addr s)"
    and "history_doc_ref s' = history_doc_ref s"
  using assms
  by (auto simp: build_api_messages_def new_list_def list_insert_def inject_def and_then_def
      Let_def py_insert_before_last split: option.splits sum.splits)

lemma build_api_messages_result:
  assumes "inject r (heap s a) (stock_data s) = Inr out"
  shows "\<exists>api_messages s'. build_api_messages r a s = Inr (api_messages, s')"
proof (cases "build_api_messages r a s")
  case (Inl e)
  then show ?thesis using assms by (simp add: build_api_messages_raises)
next
  case (Inr p)
  then show ?thesis by (cases p) simp
qed


lemma system_first_init_session:
  assumes "messages s = None \<or> system_first s"
  shows "system_first (init_session s)"
proof (cases "messages s")
  case None
  then show ?thesis
    by (simp add: init_session_def system_first_def stored_def new_list_def system_message_def
        Let_def)
next
  case (Some a)
  with assms have "system_first s" by simp
  with Some show ?thesis
    by (simp add: init_session_def Let_def)
qed

lemma stored_load_document:
  assumes "is_auth_ready s" "\<not> history_loaded s" "msgs \<noteq> []"
  shows "stored (load_chat_history (Document (Some msgs)) s) =
         Some (if role (hd msgs) \<noteq> ''system'' then system_message # msgs else msgs)"
  using assms
  by (simp add: load_chat_history_def new_list_def list_insert_def py_insert_def stored_def
      Let_def)

lemma system_first_load_chat_history:
  assumes "is_auth_ready s \<and> \<not> history_loaded s \<or> system_first s"
  shows "system_first (load_chat_history got s)"
proof (cases "is_auth_ready s \<and> \<not> history_loaded s")
  case False
  then have "load_chat_history got s = s" by (auto simp: load_chat_history_def)
  with assms False show ?thesis by simp
next
  case True
  show ?thesis
  proof (cases got)
    case GetRaises
    with True show ?thesis
      by (simp add: load_chat_history_def system_first_def stored_def new_list_def
          system_message_def)
  next
    case NoDocument
    with True show ?thesis
      by (simp add: load_chat_history_def system_first_def stored_def new_list_def
          system_message_def)
  next
    case (Document field)
    show ?thesis
    proof (cases field)
      case None
      with True Document show ?thesis
        by (simp add: load_chat_history_def system_first_def stored_def new_list_def
            system_message_def)
    next
      case (Some msgs)
      show ?thesis
      proof (cases "msgs = []")
        case True
        with \<open>is_auth_ready s \<and> \<not> history_loaded s\<close> Document Some show ?thesis
          by (simp add: load_chat_history_def system_first_def stored_def new_list_def
              system_message_def)
      next
        case False
        then obtain m ms where "msgs = m # ms" by (cases msgs) auto
        with True Document Some stored_load_document [of s msgs] show ?thesis
          by (simp add: system_first_def system_message_def)
      qed
    qed
  qed
qed

lemma system_first_list_append:
  assumes "system_first s" "messages s = Some a"
  shows "system_first (list_append a m s)"
  using assms
  by (auto simp: system_first_def stored_def list_append_def split: if_splits list.splits)

lemma messages_list_append: "messages (list_append a m s) = messages s"
  by (simp add: list_append_def)

lemma system_first_set_chat_input:
  assumes "system_first s"
  shows "system_first (fst (set_chat_input query s))"
proof -
  from assms obtain a where a: "messages s = Some a" by (rule system_firstE)
  have "system_first (s\<lparr>chat_input_text := Some query\<rparr>)"
    using assms by simp
  then show ?thesis using a
    by (simp add: set_chat_input_def Let_def system_first_list_append)
qed

lemma system_first_build_api_messages:
  assumes "system_first s" "messages s = Some a"
    and "build_api_messages r a s = Inr (api_messages, s')"
  shows "system_first s'" and "messages s' = Some a"
proof -
  from assms(1) obtain b m ms where b: "messages s = Some b" "b < next_addr s"
    "heap s b = m # ms" "role m = ''system''"
    by (rule system_firstE)
  with assms(2) have a: "a < next_addr s" "heap s a = m # ms" by simp_all
  then have ne: "heap s a \<noteq> []" by simp
  note f = build_api_messages_inject [OF a(1) ne assms(3)]
  show "messages s' = Some a" using f(4) assms(2) by simp
  then show "system_first s'"
    using f(2,6) a b(4) by (simp add: system_first_def stored_def)
qed

text \<open>One turn of the submission handler, by its steps.\<close>

lemma chat_submission_raises:
  assumes "messages s = Some a" "heap s a \<noteq> []" "u \<noteq> []"
    and "build_api_messages (repr_of w) a (append_user_input u a s) = Inl e"
  shows "chat_submission w (Some u) s = (append_user_input u a s, [], Some e)"
  using assms by (simp add: chat_submission_def Let_def)

lemma chat_submission_turn:
  assumes "messages s = Some a" "heap s a \<noteq> []" "u \<noteq> []"
    and "build_api_messages (repr_of w) a (append_user_input u a s) = Inr (api_messages, s2)"
    and "get_gemini_response (env_api_key w) (requests_post w) (heap s2 api_messages)
           = (res, effs)"
  shows "chat_submission w (Some u) s =
           (case res of
              Inl e \<Rightarrow> (s2, effs, Some e)
            | Inr reply \<Rightarrow>
                (list_append a \<lparr>role = ''assistant'', content = reply\<rparr> s2,
                 effs @ save_history w a
                          (list_append a \<lparr>role = ''assistant'', content = reply\<rparr> s2),
                 None))"
  using assms by (simp add: chat_submission_def Let_def split: sum.splits)

lemma system_first_append_user_input:
  assumes "system_first s" "messages s = Some a"
  shows "system_first (append_user_input u a s)" "messages (append_user_input u a s) = Some a"
  using assms
  by (simp_all add: append_user_input_def system_first_list_append messages_list_append)

lemma system_first_chat_submission:
  assumes "system_first s"
  shows "system_first (fst (chat_submission w user_input s))"
proof (cases user_input)
  case None
  with assms show ?thesis by (simp add: chat_submission_def)
next
  case (Some u)
  from assms obtain a m ms where a: "messages s = Some a" and h: "heap s a = m # ms"
    by (rule system_firstE)
  have s1: "system_first (append_user_input u a s)" "messages (append_user_input u a s) = Some a"
    using assms a by (rule system_first_append_user_input)+
  from h have ne: "heap s a \<noteq> []" by simp
  show ?thesis
  proof (cases "u = []")
    case True
    with Some assms show ?thesis by (simp add: chat_submission_def)
  next
    case False
    show ?thesis
    proof (cases "build_api_messages (repr_of w) a (append_user_input u a s)")
      case (Inl e)
      from chat_submission_raises [OF a ne False Inl] s1(1) Some show ?thesis by simp
    next
      case (Inr p)
      then obtain api_messages s2
        where b: "build_api_messages (repr_of w) a (append_user_input u a s)
                    = Inr (api_messages, s2)"
        by (cases p) simp
      obtain res effs where g:
        "get_gemini_response (env_api_key w) (requests_post w) (heap s2 api_messages)
           = (res, effs)"
        by force
      have s2: "system_first s2" "messages s2 = Some a"
        using system_first_build_api_messages [OF s1 b] by simp_all
      have s3: "system_first (list_append a m' s2)" for m'
        using s2 by (rule system_first_list_append)
      from chat_submission_turn [OF a ne False b g] s2 s3 Some show ?thesis
        by (simp split: sum.splits)
    qed
  qed
qed

lemma system_first_fetch_button:
  assumes "system_first s"
  shows "system_first (fetch_button upper lookup symbol_input s)"
proof (cases "symbol_input = [] \<or> fetch_stock_data upper lookup symbol_input = None")
  case True
  with assms show ?thesis
    by (auto simp: fetch_button_def Let_def)
next
  case False
  then show ?thesis
    by (auto simp: fetch_button_def system_first_def stored_def new_list_def system_message_def
        Let_def)
qed

lemma system_first_run:
  assumes "system_first s"
  shows "system_first (fst (run w ev s))"
proof -
  have init: "system_first (init_session s')" if "system_first s'" for s'
    using that by (simp add: system_first_init_session)
  show ?thesis
  proof (cases ev)
    case NoEvent
    then show ?thesis using assms by (simp add: init system_first_chat_submission)
  next
    case (PreviousQuery query)
    have "system_first (fst (set_chat_input query s))"
      using assms by (rule system_first_set_chat_input)
    then show ?thesis using PreviousQuery
      by (auto simp: init system_first_chat_submission split: prod.splits option.splits)
  next
    case (FetchClicked symbol_input)
    then show ?thesis using assms by (simp add: init system_first_fetch_button)
  next
    case (ChatSubmitted user_input)
    then show ?thesis using assms by (simp add: init system_first_chat_submission)
  qed
qed

lemma heap_append_user_input:
  "heap (append_user_input u a s) a = append_user u (heap s a)"
  by (simp add: append_user_input_def append_user_def list_append_def)

lemma frame_append_user_input:
  "messages (append_user_input u a s) = messages s"
  "next_addr (append_user_input u a s) = next_addr s"
  "stock_data (append_user_input u a s) = stock_data s"
  "history_doc_ref (append_user_input u a s) = history_doc_ref s"
  by (simp_all add: append_user_input_def list_append_def)

lemma append_user_nonempty: "xs \<noteq> [] \<Longrightarrow> append_user u xs \<noteq> []"
  by (simp add: append_user_def)

text \<open>Evaluation of the example sessions.\<close>

text \<open>The active snapshot is assigned by the lookup handler only.\<close>

lemma stock_data_list_append: "stock_data (list_append a m s) = stock_data s"
  by (simp add: list_append_def)

lemma stock_data_init_session: "stock_data (init_session s) = stock_data s"
  by (simp add: init_session_def new_list_def Let_def)

lemma stock_data_load_chat_history: "stock_data (load_chat_history got s) = stock_data s"
  by (simp add: load_chat_history_def new_list_def list_insert_def Let_def
      split: firestore_get.splits option.splits)

lemma stock_data_set_chat_input: "stock_data (fst (set_chat_input query s)) = stock_data s"
  by (simp add: set_chat_input_def list_append_def Let_def split: option.splits)

lemma stock_data_build_api_messages:
  "build_api_messages r a s = Inr (api_messages, s') \<Longrightarrow> stock_data s' = stock_data s"
  by (auto simp: build_api_messages_def new_list_def list_insert_def and_then_def Let_def
      split: option.splits sum.splits)

lemma stock_data_chat_submission:
  "stock_data (fst (chat_submission w user_input s)) = stock_data s"
proof (cases user_input)
  case None
  then show ?thesis by (simp add: chat_submission_def)
next
  case (Some u)
  show ?thesis
  proof (cases "u = [] \<or> messages s = None \<or> heap s (the (messages s)) = []")
    case True
    then show ?thesis using Some
      by (cases "messages s") (auto simp: chat_submission_def)
  next
    case False
    then obtain a where a: "messages s = Some a" "heap s a \<noteq> []" "u \<noteq> []" by auto
    show ?thesis
    proof (cases "build_api_messages (repr_of w) a (append_user_input u a s)")
      case (Inl e)
      from chat_submission_raises [OF a Inl] Some show ?thesis
        by (simp add: frame_append_user_input)
    next
      case (Inr p)
      then obtain api_messages s2
        where b: "build_api_messages (repr_of w) a (append_user_input u a s)
                    = Inr (api_messages, s2)"
        by (cases p) simp
      obtain res effs where g:
        "get_gemini_response (env_api_key w) (requests_post w) (heap s2 api_messages)
           = (res, effs)"
        by force
      have "stock_data s2 = stock_data s"
        using stock_data_build_api_messages [OF b] by (simp add: frame_append_user_input)
      with chat_submission_turn [OF a b g] Some show ?thesis
        by (simp add: stock_data_list_append split: sum.splits)
    qed
  qed
qed

lemma stock_data_run:
  assumes "\<not> is_lookup ev"
  shows "stock_data (fst (run w ev s)) = stock_data s"
proof (cases ev)
  case NoEvent
  then show ?thesis by (simp add: stock_data_chat_submission stock_data_init_session)
next
  case (PreviousQuery query)
  have "stock_data (fst (set_chat_input query s)) = stock_data s"
    by (rule stock_data_set_chat_input)
  then show ?thesis using PreviousQuery
    by (auto simp: stock_data_chat_submission stock_data_init_session
        split: prod.splits option.splits)
next
  case (FetchClicked symbol_input)
  then show ?thesis using assms
    by (simp add: fetch_button_def stock_data_init_session)
next
  case (ChatSubmitted user_input)
  then show ?thesis by (simp add: stock_data_chat_submission stock_data_init_session)
qed



lemmas example_defs =
  example_world_def failing_store_world_def null_summary_world_def example_body_def
  answering_def always_429_def twice_429_def always_500_def null_candidate_def
  empty_candidates_def unknown_symbol_def null_summary_def example_snapshot_def user_says_def
  assistant_says_def session_with_def blank_session_def

lemmas client_defs =
  get_gemini_response_def raises_for_status_def extract_text_def and_then_def
  first_candidate_def first_content_def dict_lookup_def rate_limited_def

lemmas session_defs =
  init_session_def chat_submission_def append_user_input_def list_append_def
  build_api_messages_def new_list_def list_insert_def save_history_def set_chat_input_def
  fetch_button_def fetch_stock_data_def load_chat_history_def stored_def system_first_def
  context_message_def summary_text_def is_None_def info_get_def

section \<open>The claims\<close>

subsection \<open>The generation client\<close>

text \<open>
  C2. Claim: when every one of the 3 attempts receives HTTP 429, the call returns the
  fixed "failed after multiple retries" string built at the exit of the loop.
  The code does otherwise. The retry branch is guarded by
  \<^verbatim>\<open>attempt < max_retries - 1\<close>, so the third 429 falls into the branch of the other
  HTTP errors and the call returns the formatted HTTP error string with status 429;
  the return after the loop is never reached. Evaluated at an endpoint that always
  answers 429 with the body \<open>quota exceeded\<close>: two sleeps, three POSTs, and the HTTP
  error string, which is not the retries string.
\<close>

theorem three_rate_limits_return_http_error:
  "get_gemini_response (Some ''key'') always_429 [system_message, user_says ''hi'']
     = (Inr (PStr (http_error 429 ''quota exceeded'')), [Post, Sleep 1, Post, Sleep 2, Post])
   \<and> http_error 429 ''quota exceeded'' \<noteq> retries_error"
proof -
  have "get_gemini_response (Some ''key'') always_429 [system_message, user_says ''hi'']
     = (Inr (PStr (http_error 429 (response_text (Response 429 ''quota exceeded'' (Inl ''no JSON''))))),
        [Post, Sleep 1, Post, Sleep 2, Post])"
    by (rule rate_limited_thrice) (simp_all add: always_429_def rate_limited_def)
  then show ?thesis
    by (simp add: http_error_not_retries_error)
qed

text \<open>
  C4. When the endpoint answers 429 on the first two attempts and 200 with a well-formed
  body on the third, \<^verbatim>\<open>get_gemini_response\<close> returns the text of the first part of the
  first candidate, and its effects are exactly: POST, sleep \<open>2 ^ 0\<close>, POST, sleep
  \<open>2 ^ 1\<close>, POST. So it sleeps twice, 1 second and then 2 seconds.
\<close>

theorem retry_twice_then_success:
  assumes "key \<noteq> []"
    and "\<forall>i<2. rate_limited (endpoint (build_payload api_messages) i)"
    and "endpoint (build_payload api_messages) 2 = Responded r"
    and "status_code r = 200"
    and "response_json r = Inr (PDict kvs)"
    and "dict_lookup kvs ''candidates'' = Some (PList (PDict ckvs # cs))"
    and "dict_lookup ckvs ''content'' = Some (PDict tkvs)"
    and "dict_lookup tkvs ''parts'' = Some (PList (PDict pkvs # ps))"
    and "dict_lookup pkvs ''text'' = Some t"
  shows "get_gemini_response (Some key) endpoint api_messages =
           (Inr t, [Post, Sleep (2 ^ 0), Post, Sleep (2 ^ 1), Post])"
proof -
  have "get_gemini_response (Some key) endpoint api_messages =
        retry_loop (endpoint (build_payload api_messages)) 3 [2..<3] (backoff 2)"
    using assms(1,2) by (intro retry_prefix) simp_all
  also have "\<dots> = (extract_text (PDict kvs), backoff 2 @ [Post])"
    using assms(3,4,5) by (simp add: retry_loop_next raises_for_status_def)
  also have "extract_text (PDict kvs) = Inr t"
    using assms(6,7,8,9) by (rule extract_text_well_formed)
  finally show ?thesis by (simp add: backoff_2)
qed

theorem retry_twice_then_success_witness:
  "get_gemini_response (Some ''key'') twice_429 [system_message, user_says ''hi'']
     = (Inr (PStr ''Fine.''), [Post, Sleep 1, Post, Sleep 2, Post])"
  using retry_twice_then_success
    [of "''key''" twice_429 "[system_message, user_says ''hi'']"
        "Response 200 ''ok'' (Inr example_body)"
        "[(''candidates'',
           PList [PDict [(''content'',
                          PDict [(''parts'', PList [PDict [(''text'', PStr ''Fine.'')]])])]])]"
        "[(''content'', PDict [(''parts'', PList [PDict [(''text'', PStr ''Fine.'')]])])]"
        "[]"
        "[(''parts'', PList [PDict [(''text'', PStr ''Fine.'')]])]"
        "[(''text'', PStr ''Fine.'')]"
        "[]"
        "PStr ''Fine.''"]
  by (simp add: twice_429_def always_429_def answering_def example_body_def rate_limited_def
      dict_lookup_def)

text \<open>
  C6. An HTTP error status other than 429 ends the call at once, on whichever attempt
  \<open>k\<close> it arrives (the attempts before it having been rate-limited): the result is the
  formatted string with the status code and the body the server sent, and after the
  POST of that attempt there is no sleep and no further POST. On the first attempt the
  effects are the one POST.
\<close>

theorem other_http_error_returns_at_once:
  assumes "key \<noteq> []"
    and "k < 3"
    and "\<forall>i<k. rate_limited (endpoint (build_payload api_messages) i)"
    and "endpoint (build_payload api_messages) k = Responded r"
    and "raises_for_status r"
    and "status_code r \<noteq> 429"
  shows "get_gemini_response (Some key) endpoint api_messages =
           (Inr (PStr (warning_sign @ '' **HTTP Error (Gemini):** Status '' @
                       str_nat (status_code r) @ ''. Error: '' @ response_text r)),
            backoff k @ [Post])"
proof -
  have "get_gemini_response (Some key) endpoint api_messages =
        retry_loop (endpoint (build_payload api_messages)) 3 [k..<3] (backoff k)"
    using assms(1,2,3) by (rule retry_prefix)
  also have "\<dots> =
      (Inr (PStr (http_error (status_code r) (response_text r))), backoff k @ [Post])"
    using assms(2,4,5,6) by (simp add: retry_loop_next)
  finally show ?thesis by (simp add: http_error_def)
qed

theorem other_http_error_returns_at_once_witness:
  "get_gemini_response (Some ''key'') always_500 [system_message, user_says ''hi'']
     = (Inr (PStr (warning_sign @ '' **HTTP Error (Gemini):** Status 500. Error: boom'')),
        [Post])"
  using other_http_error_returns_at_once
    [of "''key''" 0 always_500 "[system_message, user_says ''hi'']"
        "Response 500 ''boom'' (Inl ''no JSON'')"]
  by (simp add: always_500_def raises_for_status_def backoff_0 str_nat_500)

text \<open>
  C7. Claim: for every HTTP 200 response whose JSON body lacks the expected shape, the
  call returns the fixed "empty or unexpected response" string and never raises while
  extracting the reply. As stated this fails: the guards use \<^verbatim>\<open>.get\<close>, which exists on
  objects only, so a body whose first candidate is null has no content and yet makes
  the extraction raise \<^verbatim>\<open>AttributeError\<close>, which nothing catches.
\<close>

theorem null_first_candidate_raises:
  "first_candidate (PDict [(''candidates'', PList [PNone])]) = Inr PNone
   \<and> get_gemini_response (Some ''key'') null_candidate [system_message, user_says ''hi'']
       = (Inl AttributeError, [Post])"
  by (simp add: get_gemini_response_def null_candidate_def upt_rec raises_for_status_def
      extract_text_def and_then_def first_candidate_def dict_lookup_def)

text \<open>
  C7, amended. For every HTTP 200 response whose JSON body is empty or an object without
  candidates, or whose first candidate is an object without content, or whose first
  candidate's content is an object without parts (a key being absent when it is missing
  or its value is empty), the call returns the fixed "empty or unexpected response"
  string and raises nothing, on whichever attempt \<open>k\<close> the response arrives.
\<close>

theorem missing_keys_give_fixed_error:
  assumes "key \<noteq> []"
    and "k < 3"
    and "\<forall>i<k. rate_limited (endpoint (build_payload api_messages) i)"
    and "endpoint (build_payload api_messages) k = Responded r"
    and "status_code r = 200"
    and "response_json r = Inr body"
    and "no_candidates body \<or> candidate_without_content body \<or> content_without_parts body"
  shows "get_gemini_response (Some key) endpoint api_messages =
           (Inr (PStr empty_response_error), backoff k @ [Post])"
proof -
  have "get_gemini_response (Some key) endpoint api_messages =
        retry_loop (endpoint (build_payload api_messages)) 3 [k..<3] (backoff k)"
    using assms(1,2,3) by (rule retry_prefix)
  also have "\<dots> = (extract_text body, backoff k @ [Post])"
    using assms(2,4,5,6) by (simp add: retry_loop_next raises_for_status_def)
  also have "extract_text body = Inr (PStr empty_response_error)"
    using assms(7) extract_text_no_candidates extract_text_candidate_without_content
      extract_text_content_without_parts by blast
  finally show ?thesis .
qed

theorem missing_keys_give_fixed_error_witness:
  "no_candidates (PDict [(''candidates'', PList [])])
   \<and> get_gemini_response (Some ''key'') empty_candidates [system_message, user_says ''hi'']
       = (Inr (PStr empty_response_error), [Post, Sleep 1, Post])"
  using missing_keys_give_fixed_error
    [of "''key''" 1 empty_candidates "[system_message, user_says ''hi'']"
        "Response 200 ''ok'' (Inr (PDict [(''candidates'', PList [])]))"
        "PDict [(''candidates'', PList [])]"]
  by (simp add: empty_candidates_def always_429_def rate_limited_def no_candidates_def
      absent_def dict_lookup_def backoff_def)

subsection \<open>The context injector\<close>




text \<open>
  C9. Without an active Snapshot the outbound sequence is the stored Conversation, equal
  in length and content (the roles are remapped only inside \<^verbatim>\<open>get_gemini_response\<close>,
  by \<open>build_payload\<close>). It is a new list: building it leaves the stored list as it
  was, and the session still refers to that stored list.
\<close>

theorem no_snapshot_outbound_is_conversation:
  assumes "stock_data s = None"
    and "messages s = Some a"
    and "a < next_addr s"
  shows "\<exists>api_messages s'.
           build_api_messages r a s = Inr (api_messages, s')
         \<and> heap s' api_messages = heap s a
         \<and> heap s' a = heap s a
         \<and> messages s' = Some a
         \<and> api_messages \<noteq> a"
  using assms
  by (auto simp: build_api_messages_def new_list_def)

theorem no_snapshot_outbound_is_conversation_witness:
  "\<exists>api_messages s'.
     build_api_messages no_containers 0 (session_with [system_message, user_says ''hi''] None)
       = Inr (api_messages, s')
   \<and> heap s' api_messages = [system_message, user_says ''hi'']
   \<and> heap s' 0 = [system_message, user_says ''hi'']
   \<and> api_messages \<noteq> 0"
  using no_snapshot_outbound_is_conversation
    [of "session_with [system_message, user_says ''hi''] None" 0 no_containers]
  by (auto simp: session_with_def)

subsection \<open>The session controller\<close>

text \<open>
  C1. Claim: a replayed historical query completes a full turn, so that the Conversation
  ends with the query as a user message followed by the reply as an assistant message.
  The code does otherwise. The callback \<^verbatim>\<open>set_chat_input\<close> appends the user message,
  and its comment has the query "immediately processed"; but the submission handler
  runs only when the chat box returned text, which it does not in the run that follows
  a button click. Evaluated on a session with one earlier exchange and an endpoint that
  would answer: after the replay of \<open>hi\<close> the Conversation ends with the user message,
  nothing was posted, and no reply was appended; the same text typed into the chat box
  is posted and gets its reply.
\<close>

theorem replayed_query_gets_no_reply:
  "stored (fst (run example_world (PreviousQuery ''hi'')
                  (session_with [system_message, user_says ''hi'', assistant_says ''hello''] None)))
     = Some [system_message, user_says ''hi'', assistant_says ''hello'', user_says ''hi'']
   \<and> snd (run example_world (PreviousQuery ''hi'')
             (session_with [system_message, user_says ''hi'', assistant_says ''hello''] None))
     = ([], None)
   \<and> stored (fst (run example_world (ChatSubmitted ''hi'')
                  (session_with [system_message, user_says ''hi'', assistant_says ''hello''] None)))
     = Some [system_message, user_says ''hi'', assistant_says ''hello'', user_says ''hi'',
             assistant_says ''Fine.'']"
  by (simp add: example_defs session_defs client_defs Let_def upt_rec)

text \<open>
  C5. Claim: the active Snapshot is replaced only wholesale by a successful lookup and
  otherwise stays active; in particular a lookup that fails leaves it unchanged.
  As stated this fails: the handler stores the result of the lookup before testing it,
  so a failed lookup stores \<open>None\<close>. With AAPL active, a lookup of a symbol that the
  market data does not know leaves no Snapshot active.
\<close>

theorem failed_lookup_clears_snapshot:
  "stock_data (session_with [system_message] (Some example_snapshot)) = Some example_snapshot
   \<and> fetch_stock_data ascii_upper unknown_symbol ''zzzz'' = None
   \<and> stock_data (fetch_button ascii_upper unknown_symbol ''zzzz''
                    (session_with [system_message] (Some example_snapshot)))
       \<noteq> stock_data (session_with [system_message] (Some example_snapshot))"
  by (simp add: fetch_button_def fetch_stock_data_def session_with_def unknown_symbol_def
      is_None_def)

text \<open>
  C5, amended. The active Snapshot is replaced only wholesale by a lookup and otherwise
  stays active until a lookup replaces it: every script run that is not a lookup (no
  event, a replayed query, a chat submission, a click with an empty symbol field) and
  the loading of the history leave the active Snapshot unchanged. A lookup, successful
  or not, makes its result the active Snapshot; so a lookup that fails (symbol not found
  or fetch error) leaves no Snapshot active, and it leaves the stored Conversation as it
  was.
\<close>

theorem snapshot_changes_only_by_lookup:
  "(\<not> is_lookup ev \<longrightarrow> stock_data (fst (run w ev s)) = stock_data s)
   \<and> stock_data (load_chat_history got s) = stock_data s
   \<and> (symbol_input \<noteq> [] \<longrightarrow>
        stock_data (fst (run w (FetchClicked symbol_input) s))
          = fetch_stock_data (str_upper w) (yf_info w) symbol_input
      \<and> stock_data (fetch_button upper lookup symbol_input s)
          = fetch_stock_data upper lookup symbol_input
      \<and> (fetch_stock_data upper lookup symbol_input = None \<longrightarrow>
           stock_data (fetch_button upper lookup symbol_input s) = None
         \<and> stored (fetch_button upper lookup symbol_input s) = stored s))"
proof -
  have lookup: "stock_data (fetch_button u l symbol_input s') = fetch_stock_data u l symbol_input"
    if "symbol_input \<noteq> []" for u l s'
    using that by (auto simp: fetch_button_def Let_def new_list_def split: option.splits)
  have failed: "stored (fetch_button upper lookup symbol_input s) = stored s"
    if "fetch_stock_data upper lookup symbol_input = None"
    using that by (simp add: fetch_button_def Let_def)
  show ?thesis
    using lookup failed by (simp add: stock_data_run stock_data_load_chat_history)
qed

theorem snapshot_changes_only_by_lookup_witness:
  "stock_data (fst (run example_world (ChatSubmitted ''hi'')
                      (session_with [system_message] (Some example_snapshot))))
     = Some example_snapshot
   \<and> stock_data (fst (run example_world (FetchClicked ''zzzz'')
                      (session_with [system_message] (Some example_snapshot))))
     = None
   \<and> stock_data (fetch_button ascii_upper unknown_symbol ''zzzz''
                    (session_with [system_message] (Some example_snapshot))) = None
   \<and> stored (fetch_button ascii_upper unknown_symbol ''zzzz''
                (session_with [system_message] (Some example_snapshot)))
       = Some [system_message]"
  using snapshot_changes_only_by_lookup
    [of "ChatSubmitted ''hi''" example_world
        "session_with [system_message] (Some example_snapshot)" NoDocument "''zzzz''"
        ascii_upper unknown_symbol]
  by (simp add: fetch_stock_data_def unknown_symbol_def session_with_def stored_def
      example_world_def is_None_def)

text \<open>
  C8. Every operation that changes the stored Conversation keeps a system message first:
  the initialisation of a session without messages, the loading of the persisted
  history (whatever the store returns), the append of a user message (by the callback
  of a previous query and by the submission handler), the append of the assistant
  reply, the reset by a successful lookup, and so every script run. Loading a document
  whose first message is not a system message puts the system prompt at index 0.
\<close>

theorem system_message_stays_first:
  "(messages s0 = None \<longrightarrow> system_first (init_session s0))
   \<and> (is_auth_ready s0 \<and> \<not> history_loaded s0 \<longrightarrow> system_first (load_chat_history got s0))
   \<and> (is_auth_ready s0 \<and> \<not> history_loaded s0 \<and> msgs \<noteq> [] \<and> role (hd msgs) \<noteq> ''system'' \<longrightarrow>
        stored (load_chat_history (Document (Some msgs)) s0) = Some (system_message # msgs))
   \<and> (system_first s \<longrightarrow>
        system_first (init_session s)
      \<and> system_first (load_chat_history got s)
      \<and> system_first (fst (set_chat_input query s))
      \<and> system_first (fst (chat_submission w user_input s))
      \<and> system_first (fetch_button upper lookup symbol_input s)
      \<and> system_first (fst (run w ev s)))"
  by (simp add: system_first_init_session system_first_load_chat_history stored_load_document
      system_first_set_chat_input system_first_chat_submission system_first_fetch_button
      system_first_run)

theorem system_message_stays_first_witness:
  "system_first (init_session blank_session)
   \<and> system_first (load_chat_history (Document (Some [user_says ''hi''])) blank_session)
   \<and> stored (load_chat_history (Document (Some [user_says ''hi''])) blank_session)
       = Some [system_message, user_says ''hi'']
   \<and> system_first (fst (set_chat_input ''hi'' (session_with [system_message] None)))
   \<and> system_first (fst (chat_submission example_world (Some ''hi'')
                           (session_with [system_message] None)))
   \<and> system_first (fetch_button ascii_upper unknown_symbol ''zzzz''
                     (session_with [system_message] None))
   \<and> system_first (fst (run example_world (ChatSubmitted ''hi'')
                           (session_with [system_message] None)))"
proof -
  have blank: "messages blank_session = None" "is_auth_ready blank_session"
    "\<not> history_loaded blank_session"
    by (simp_all add: blank_session_def)
  have msgs: "[user_says ''hi''] \<noteq> []" "role (hd [user_says ''hi'']) \<noteq> ''system''"
    by (simp_all add: user_says_def)
  have first: "system_first (session_with [system_message] None)"
    by (simp add: system_first_def stored_def session_with_def system_message_def)
  show ?thesis
    using system_message_stays_first
      [of blank_session "Document (Some [user_says ''hi''])" "[user_says ''hi'']"
          "session_with [system_message] None" "''hi''" example_world "Some ''hi''"
          ascii_upper unknown_symbol "''zzzz''" "ChatSubmitted ''hi''"]
      blank msgs first
    by simp
qed

text \<open>
  C10. When the write of the history document raises after a completed turn (the
  outbound sequence was built and the generation client has returned a reply or an
  error string), the handler catches the
  exception: no exception escapes the run, whose last effect is the warning; the reply
  stays appended to the stored Conversation, after the user message; and the session
  is as ready for the next turn as it was for this one (same Snapshot, same document
  reference, a non-empty stored Conversation).
\<close>

theorem save_failure_is_contained:
  assumes "messages s = Some a" and "a < next_addr s" and "heap s a \<noteq> []" and "u \<noteq> []"
    and "history_doc_ref s"
    and "inject (repr_of w) (append_user u (heap s a)) (stock_data s) = Inr outbound"
    and "get_gemini_response (env_api_key w) (requests_post w) outbound = (Inr reply, effs)"
    and "doc_set_raises w
           (append_user u (heap s a) @ [\<lparr>role = ''assistant'', content = reply\<rparr>])"
  shows "snd (chat_submission w (Some u) s) = (effs @ [SaveWarning], None)
       \<and> stored (fst (chat_submission w (Some u) s)) =
           Some (append_user u (heap s a) @ [\<lparr>role = ''assistant'', content = reply\<rparr>])
       \<and> stock_data (fst (chat_submission w (Some u) s)) = stock_data s
       \<and> history_doc_ref (fst (chat_submission w (Some u) s))"
proof -
  let ?s1 = "append_user_input u a s"
  have inj: "inject (repr_of w) (heap ?s1 a) (stock_data ?s1) = Inr outbound"
    using assms(6) by (simp add: heap_append_user_input frame_append_user_input)
  then obtain api_messages s2
    where b: "build_api_messages (repr_of w) a ?s1 = Inr (api_messages, s2)"
    using build_api_messages_result by blast
  have a1: "a < next_addr ?s1" "heap ?s1 a \<noteq> []"
    using assms(2,3)
    by (simp_all add: frame_append_user_input heap_append_user_input append_user_nonempty)
  note f = build_api_messages_inject [OF a1 b]
  have out: "heap s2 api_messages = outbound"
    using f(1) inj by simp
  have g: "get_gemini_response (env_api_key w) (requests_post w) (heap s2 api_messages)
           = (Inr reply, effs)"
    using assms(7) out by simp
  let ?s3 = "list_append a \<lparr>role = ''assistant'', content = reply\<rparr> s2"
  have run: "chat_submission w (Some u) s = (?s3, effs @ save_history w a ?s3, None)"
    using chat_submission_turn [OF assms(1,3,4) b g] by simp
  have h3: "heap ?s3 a = append_user u (heap s a) @ [\<lparr>role = ''assistant'', content = reply\<rparr>]"
    using f(2) by (simp add: list_append_def heap_append_user_input)
  have fr: "messages ?s3 = Some a" "next_addr ?s3 = Suc (next_addr s)"
    "stock_data ?s3 = stock_data s" "history_doc_ref ?s3"
    using f(4,5,6,7) assms(1,5) by (simp_all add: list_append_def frame_append_user_input)
  have sv: "save_history w a ?s3 = [SaveWarning]"
    using fr(4) assms(8) h3 by (simp add: save_history_def)
  show ?thesis
    using run sv h3 fr assms(2) by (simp add: stored_def)
qed

theorem save_failure_is_contained_witness:
  "snd (chat_submission failing_store_world (Some ''and now?'')
          (session_with [system_message, user_says ''hi'', assistant_says ''hello''] None))
     = ([Post, SaveWarning], None)
   \<and> stored (fst (chat_submission failing_store_world (Some ''and now?'')
          (session_with [system_message, user_says ''hi'', assistant_says ''hello''] None)))
     = Some [system_message, user_says ''hi'', assistant_says ''hello'',
             user_says ''and now?'', assistant_says ''Fine.'']"
  using save_failure_is_contained
    [of "session_with [system_message, user_says ''hi'', assistant_says ''hello''] None" 0
        "''and now?''" failing_store_world
        "[system_message, user_says ''hi'', assistant_says ''hello'', user_says ''and now?'']"
        "PStr ''Fine.''" "[Post]"]
  by (simp add: example_defs client_defs inject_def append_user_def upt_rec)

end
